theory Spec2Isabelle
  imports Main
begin

section \<open>JavaScript values\<close>

text \<open>
  The frontend moves JSON values between the HTTP response, the component state and the
  display components, and tests them with JavaScript truthiness. A number is kept as its
  canonical decimal text (what \<^verbatim>\<open>String(n)\<close> gives), so \<^verbatim>\<open>0\<close> is
  \<open>JNum ''0''\<close> and \<^verbatim>\<open>NaN\<close> is \<open>JNum ''NaN''\<close>; strings are byte strings
  (UTF-8). An object is the list of its own properties.
\<close>

datatype jsval =
    JUndefined
  | JNull
  | JBool bool
  | JNum string
  | JStr string
  | JArr "jsval list"
  | JObj "(string \<times> jsval) list"

text \<open>ToBoolean: what \<^verbatim>\<open>!v\<close>, \<^verbatim>\<open>v && e\<close> and \<^verbatim>\<open>v || e\<close> test.\<close>

fun truthy :: "jsval \<Rightarrow> bool" where
  "truthy JUndefined = False"
| "truthy JNull = False"
| "truthy (JBool b) = b"
| "truthy (JNum n) = (n \<noteq> ''0'' \<and> n \<noteq> ''NaN'')"
| "truthy (JStr s) = (s \<noteq> [])"
| "truthy (JArr xs) = True"
| "truthy (JObj kvs) = True"

definition js_or :: "jsval \<Rightarrow> jsval \<Rightarrow> jsval" where
  "js_or a b = (if truthy a then a else b)"

definition nullish :: "jsval \<Rightarrow> bool" where
  "nullish v = (v = JUndefined \<or> v = JNull)"

text \<open>
  Property read \<^verbatim>\<open>v.k\<close> on a value that is not null or undefined (where the source can
  read a property of null or undefined, the model tests \<open>nullish\<close> first and raises the
  TypeError). The names read by this program are no built-in properties of arrays, strings,
  numbers or booleans, so such a read gives undefined.
\<close>

fun get_prop :: "jsval \<Rightarrow> string \<Rightarrow> jsval" where
  "get_prop (JObj kvs) k = (case map_of kvs k of None \<Rightarrow> JUndefined | Some v \<Rightarrow> v)"
| "get_prop v k = JUndefined"

text \<open>Optional chaining \<^verbatim>\<open>v?.k\<close>.\<close>

definition opt_prop :: "jsval \<Rightarrow> string \<Rightarrow> jsval" where
  "opt_prop v k = (if nullish v then JUndefined else get_prop v k)"

fun intersperse :: "string \<Rightarrow> string list \<Rightarrow> string" where
  "intersperse sep [] = []"
| "intersperse sep [x] = x"
| "intersperse sep (x # y # ys) = x @ sep @ intersperse sep (y # ys)"

text \<open>The exception an operation of the language throws on a value it cannot handle.\<close>

datatype exn = TypeError

text \<open>
  ToString, as \<^verbatim>\<open>new Error(v)\<close> applies it to its argument. An array is joined with
  commas, \<^verbatim>\<open>null\<close> and \<^verbatim>\<open>undefined\<close> elements giving the empty string. An object of
  JSON is converted by \<^verbatim>\<open>Object.prototype.toString\<close>, unless it has a key
  \<^verbatim>\<open>toString\<close> of its own: the value under that key is no function, the inherited
  \<^verbatim>\<open>valueOf\<close> returns the object itself, and the conversion throws a TypeError.
\<close>

fun to_string :: "jsval \<Rightarrow> exn + string"
  and to_strings :: "jsval list \<Rightarrow> exn + string list" where
  "to_string JUndefined = Inr ''undefined''"
| "to_string JNull = Inr ''null''"
| "to_string (JBool b) = Inr (if b then ''true'' else ''false'')"
| "to_string (JNum n) = Inr n"
| "to_string (JStr s) = Inr s"
| "to_string (JArr xs) =
     (case to_strings xs of Inl e \<Rightarrow> Inl e | Inr ss \<Rightarrow> Inr (intersperse '','' ss))"
| "to_string (JObj kvs) =
     (if map_of kvs ''toString'' \<noteq> None then Inl TypeError else Inr ''[object Object]'')"
| "to_strings [] = Inr []"
| "to_strings (x # xs) =
     (case (if nullish x then Inr [] else to_string x) of
        Inl e \<Rightarrow> Inl e
      | Inr s \<Rightarrow> (case to_strings xs of Inl e \<Rightarrow> Inl e | Inr ss \<Rightarrow> Inr (s # ss)))"

text \<open>
  An error object, with its message: one made by \<^verbatim>\<open>new Error(m)\<close> (or raised by the
  platform: the network failure of \<^verbatim>\<open>fetch\<close>, the SyntaxError of
  \<^verbatim>\<open>response.json()\<close>), or the TypeError of a failed conversion. The text of that
  TypeError is the engine's; the one of V8 stands for it.
\<close>

datatype js_error = Error string | ConversionTypeError string

fun message :: "js_error \<Rightarrow> string" where
  "message (Error m) = m"
| "message (ConversionTypeError m) = m"

definition cannot_convert_message :: string where
  "cannot_convert_message = ''Cannot convert object to primitive value''"

text \<open>The settled state of a promise.\<close>

datatype 'a promise = Resolved 'a | Rejected js_error

section \<open>The API client (frontend/src/services/api.js)\<close>

text \<open>
  The client sends one request and reads the response. The network is the parameter
  \<open>fetch\<close>: for a request it says what the \<^verbatim>\<open>fetch\<close> promise settles to, either a
  failure on the network (the promise rejects), or a response with its \<^verbatim>\<open>ok\<close> flag
  and with what \<^verbatim>\<open>response.json()\<close> settles to, the parsed body or a SyntaxError.
  The request body is kept as the value handed to \<^verbatim>\<open>JSON.stringify\<close>.
\<close>

record request =
  url :: string
  http_method :: string
  headers :: "(string \<times> string) list"
  body :: jsval

datatype fetch_result =
    NetworkFailure js_error
  | Response (ok: bool) (json: "jsval promise")

definition generic_message :: string where
  "generic_message = ''An unexpected error occurred while generating the path.''"

definition api_request :: "string \<Rightarrow> string \<Rightarrow> request" where
  "api_request cur tgt =
     \<lparr>url = ''/api/generate-career-path'', http_method = ''POST'',
      headers = [(''Content-Type'', ''application/json'')],
      body = JObj [(''currentRole'', JStr cur), (''targetRole'', JStr tgt)]\<rparr>"

definition generateCareerPath ::
  "(request \<Rightarrow> fetch_result) \<Rightarrow> string \<Rightarrow> string \<Rightarrow> jsval promise" where
  "generateCareerPath fetch cur tgt =
     (case fetch (api_request cur tgt) of
        NetworkFailure e \<Rightarrow> Rejected e
      | Response is_ok parsed \<Rightarrow>
          if \<not> is_ok then
            (let errorData = (case parsed of Resolved v \<Rightarrow> v | Rejected e \<Rightarrow> JNull)
             in case to_string
                  (js_or (opt_prop (opt_prop errorData ''error'') ''message'')
                         (JStr generic_message)) of
                  Inl e \<Rightarrow> Rejected (ConversionTypeError cannot_convert_message)
                | Inr m \<Rightarrow> Rejected (Error m))
          else parsed)"

section \<open>The form component (CareerPathGenerator)\<close>

record component_state =
  currentRole :: string
  targetRole :: string
  plan :: jsval
  isLoading :: bool
  error :: string

definition initial_state :: component_state where
  "initial_state =
     \<lparr>currentRole = [], targetRole = [], plan = JNull, isLoading = False, error = []\<rparr>"

text \<open>
  \<^verbatim>\<open>handleSubmit\<close> up to its \<^verbatim>\<open>await\<close>, and the whole handler once the request has
  settled. The request is sent with the two roles of the state as they are.
\<close>

definition handleSubmit_start :: "component_state \<Rightarrow> component_state" where
  "handleSubmit_start s = s\<lparr>isLoading := True, error := [], plan := JNull\<rparr>"

definition handleSubmit ::
  "(request \<Rightarrow> fetch_result) \<Rightarrow> component_state \<Rightarrow> component_state" where
  "handleSubmit fetch s =
     (let s1 = handleSubmit_start s;
          s2 = (case generateCareerPath fetch (currentRole s) (targetRole s) of
                  Resolved result \<Rightarrow> s1\<lparr>plan := result\<rparr>
                | Rejected err \<Rightarrow> s1\<lparr>error := message err\<rparr>)
      in s2\<lparr>isLoading := False\<rparr>)"

definition isButtonDisabled :: "component_state \<Rightarrow> bool" where
  "isButtonDisabled s =
     (\<not> truthy (JStr (currentRole s)) \<or> \<not> truthy (JStr (targetRole s)) \<or> isLoading s)"

text \<open>
  The spec's reading of an empty role, "empty after trimming": \<^verbatim>\<open>String.prototype.trim\<close>
  on the ASCII white space and line terminators. The source never calls it.
\<close>

definition is_space :: "char \<Rightarrow> bool" where
  "is_space c = (c \<in> set [CHR '' '', CHR 0x09, CHR 0x0A, CHR 0x0B, CHR 0x0C, CHR 0x0D])"

definition trim_spec :: "string \<Rightarrow> string" where
  "trim_spec s = rev (dropWhile is_space (rev (dropWhile is_space s)))"

definition empty_role_spec :: "component_state \<Rightarrow> bool" where
  "empty_role_spec s = (trim_spec (currentRole s) = [] \<or> trim_spec (targetRole s) = [])"

section \<open>The display components\<close>

text \<open>
  A component returns \<^verbatim>\<open>null\<close> or a tree of elements. An element has its tag, its
  \<^verbatim>\<open>key\<close>, the names of the entries of \<^verbatim>\<open>styles\<close> merged into its \<^verbatim>\<open>style\<close>, its
  other attributes and its children; a child is an element, literal text, the value of
  an expression \<^verbatim>\<open>{e}\<close>, or the array a \<^verbatim>\<open>.map\<close> returned. Reading a property of
  \<^verbatim>\<open>null\<close> or \<^verbatim>\<open>undefined\<close>, and calling \<^verbatim>\<open>.map\<close> on a value that is no array,
  throw a TypeError.
\<close>

datatype vnode =
    VNull
  | VExpr jsval
  | VText string
  | VArray "vnode list"
  | VElem (tag: string) (key: "nat option") (style: "string list")
      (attrs: "(string \<times> jsval) list") (children: "vnode list")

definition el :: "string \<Rightarrow> string list \<Rightarrow> vnode list \<Rightarrow> vnode" where
  "el t st cs = VElem t None st [] cs"

text \<open>Text of the source outside ASCII, as UTF-8 bytes.\<close>

definition bullet :: string where "bullet = [CHR 0xE2, CHR 0x80, CHR 0xA2]"
definition arrow_icon :: string where "arrow_icon = [CHR 0xE2, CHR 0x86, CHR 0x92]"
definition target_icon :: string where "target_icon = [CHR 0xF0, CHR 0x9F, CHR 0x8E, CHR 0xAF]"
definition books_icon :: string where "books_icon = [CHR 0xF0, CHR 0x9F, CHR 0x93, CHR 0x9A]"
definition laptop_icon :: string where "laptop_icon = [CHR 0xF0, CHR 0x9F, CHR 0x92, CHR 0xBB]"
definition check_icon :: string where "check_icon = [CHR 0xE2, CHR 0x9C, CHR 0x85]"
definition warning_icon :: string where
  "warning_icon = [CHR 0xE2, CHR 0x9A, CHR 0xA0, CHR 0xEF, CHR 0xB8, CHR 0x8F]"

text \<open>\<^verbatim>\<open>xs.map((x, index) => f)\<close>, stopping at the first callback that throws.\<close>

fun map_index :: "(jsval \<Rightarrow> nat \<Rightarrow> exn + vnode) \<Rightarrow> nat \<Rightarrow> jsval list \<Rightarrow> exn + vnode list" where
  "map_index f i [] = Inr []"
| "map_index f i (x # xs) =
     (case f x i of
        Inl e \<Rightarrow> Inl e
      | Inr y \<Rightarrow> (case map_index f (Suc i) xs of Inl e \<Rightarrow> Inl e | Inr ys \<Rightarrow> Inr (y # ys)))"

text \<open>\<^verbatim>\<open>{v && v.map(f)}\<close>: a falsy \<open>v\<close> is the child itself.\<close>

definition and_map :: "jsval \<Rightarrow> (jsval \<Rightarrow> nat \<Rightarrow> exn + vnode) \<Rightarrow> exn + vnode" where
  "and_map v f =
     (if \<not> truthy v then Inr (VExpr v)
      else case v of
        JArr xs \<Rightarrow> (case map_index f 0 xs of Inl e \<Rightarrow> Inl e | Inr ys \<Rightarrow> Inr (VArray ys))
      | _ \<Rightarrow> Inl TypeError)"

text \<open>\<^verbatim>\<open>{v && (<element/>)}\<close>.\<close>

definition and_node :: "jsval \<Rightarrow> vnode \<Rightarrow> vnode" where
  "and_node v n = (if truthy v then n else VExpr v)"

text \<open>\<^verbatim>\<open>status === "Success" ? styles.validationSuccess : styles.validationError\<close>.\<close>

definition validation_style :: "jsval \<Rightarrow> string" where
  "validation_style status =
     (if status = JStr ''Success'' then ''validationSuccess'' else ''validationError'')"

subsection \<open>ErrorAlert\<close>

definition ErrorAlert :: "jsval \<Rightarrow> vnode" where
  "ErrorAlert msg =
     (if \<not> truthy msg then VNull
      else el ''div'' [''alert'']
             [el ''span'' [''icon''] [VText warning_icon],
              el ''span'' [''message''] [VExpr msg]])"

subsection \<open>ResultCard (frontend/src/components/ResultCard.jsx)\<close>

definition skill_item :: "jsval \<Rightarrow> nat \<Rightarrow> exn + vnode" where
  "skill_item skill index = Inr (VElem ''li'' (Some index) [''listItem''] [] [VExpr skill])"

text \<open>The children of the \<^verbatim>\<open>courseMeta\<close> span of a course.\<close>

definition course_meta :: "jsval \<Rightarrow> vnode list" where
  "course_meta course =
     [VExpr (get_prop course ''platform''),
      VText ('' '' @ bullet @ '' ''),
      VExpr (js_or (get_prop course ''duration'') (JStr ''N/A'')),
      VText ('' '' @ bullet),
      VExpr (JStr '' ''),
      VExpr (js_or (get_prop course ''level'') (JStr ''All Levels''))]"

definition course_link :: "jsval \<Rightarrow> nat \<Rightarrow> exn + vnode" where
  "course_link course courseIndex =
     (if nullish course then Inl TypeError
      else Inr (VElem ''a'' (Some courseIndex) [''courseLink'']
             [(''href'', get_prop course ''url''), (''target'', JStr ''_blank''),
              (''rel'', JStr ''noopener noreferrer'')]
             [el ''div'' [''courseInfo'']
                [el ''span'' [''courseTitle''] [VExpr (get_prop course ''title'')],
                 el ''span'' [''courseMeta''] (course_meta course)],
              el ''span'' [''arrow''] [VText arrow_icon]]))"

text \<open>The box of \<^verbatim>\<open>skillData.code_snippet.validation\<close>, a truthy value.\<close>

definition snippet_validation :: "jsval \<Rightarrow> vnode" where
  "snippet_validation v =
     el ''div'' [''validationBox'', validation_style (get_prop v ''status'')]
       [el ''div'' [''validationHeader'']
          [el ''strong'' [] [VText ''Validation: '', VExpr (get_prop v ''status'')],
           el ''span'' [''validationTime''] [VExpr (get_prop v ''execution_time''), VText ''s'']],
        and_node (get_prop v ''output'')
          (el ''pre'' [''outputBlock''] [VExpr (get_prop v ''output'')]),
        el ''p'' [''validationDetails''] [VExpr (get_prop v ''details'')]]"

text \<open>The block of \<^verbatim>\<open>skillData.code_snippet\<close>, a truthy value.\<close>

definition code_section :: "jsval \<Rightarrow> vnode" where
  "code_section cs =
     el ''div'' [''codeSection'']
       [el ''h6'' [''codeTitle''] [VText (laptop_icon @ '' Code Example'')],
        el ''pre'' [''codeBlock''] [el ''code'' [] [VExpr (get_prop cs ''code'')]],
        el ''p'' [''codeDescription''] [VExpr (get_prop cs ''description'')],
        and_node (get_prop cs ''validation'') (snippet_validation (get_prop cs ''validation''))]"

definition skill_section :: "jsval \<Rightarrow> nat \<Rightarrow> exn + vnode" where
  "skill_section skillData skillIndex =
     (if nullish skillData then Inl TypeError
      else case and_map (get_prop skillData ''courses'') course_link of
        Inl e \<Rightarrow> Inl e
      | Inr courses \<Rightarrow>
          Inr (VElem ''div'' (Some skillIndex) [''skillSection''] []
                 [el ''h5'' [''skillName''] [VExpr (get_prop skillData ''skill'')],
                  el ''div'' [''courseList''] [courses],
                  and_node (get_prop skillData ''code_snippet'')
                    (code_section (get_prop skillData ''code_snippet''))]))"

text \<open>The section of \<^verbatim>\<open>codeValidationResult\<close>, a truthy value, under its heading.\<close>

definition validation_section :: "string \<Rightarrow> jsval \<Rightarrow> vnode" where
  "validation_section heading cvr =
     el ''div'' [''section'']
       [el ''h4'' [''sectionTitle''] [VText heading],
        el ''div'' [''validationBox'', validation_style (get_prop cvr ''status'')]
          [el ''div'' [''validationHeader'']
             [el ''strong'' [] [VExpr (get_prop cvr ''skill'')],
              el ''span'' [''validationStatus''] [VExpr (get_prop cvr ''status'')]],
           el ''p'' [''validationDetails''] [VExpr (get_prop cvr ''details'')]]]"

definition card_header :: "jsval \<Rightarrow> vnode" where
  "card_header title =
     el ''div'' [''header'']
       [el ''h3'' [''title''] [VExpr (js_or title (JStr ''Your Recommended Career Path''))]]"

definition skills_section :: "vnode \<Rightarrow> vnode" where
  "skills_section items =
     el ''div'' [''section'']
       [el ''h4'' [''sectionTitle''] [VText (target_icon @ '' Top 3 Skills to Learn'')],
        el ''ol'' [''list''] [items]]"

definition ResultCard :: "jsval \<Rightarrow> exn + vnode" where
  "ResultCard p =
     (if \<not> truthy p then Inr VNull
      else
        let title = get_prop p ''title'';
            skillsToLearn = get_prop p ''skillsToLearn'';
            skillsWithCourses = get_prop p ''skillsWithCourses'';
            codeValidationResult = get_prop p ''codeValidationResult''
        in case and_map skillsToLearn skill_item of
             Inl e \<Rightarrow> Inl e
           | Inr items \<Rightarrow>
               (case and_map skillsWithCourses skill_section of
                  Inl e \<Rightarrow> Inl e
                | Inr sections \<Rightarrow>
                    Inr (el ''div'' [''container'']
                      [card_header title,
                       skills_section items,
                       el ''div'' [''section'']
                         [el ''h4'' [''sectionTitle'']
                            [VText (books_icon @ '' Recommended Courses'')],
                          sections],
                       and_node codeValidationResult
                         (validation_section (check_icon @ '' Overall Validation Status'')
                            codeValidationResult)])))"

subsection \<open>ResultCard, the older variant (it reads recommendedCourses)\<close>

definition course_link_old :: "jsval \<Rightarrow> nat \<Rightarrow> exn + vnode" where
  "course_link_old course index =
     (if nullish course then Inl TypeError
      else Inr (VElem ''a'' (Some index) [''courseLink'']
             [(''href'', get_prop course ''url''), (''target'', JStr ''_blank''),
              (''rel'', JStr ''noopener noreferrer'')]
             [el ''span'' [''courseName''] [VExpr (get_prop course ''skill'')],
              el ''span'' [''arrow''] [VText arrow_icon]]))"

definition ResultCard_old :: "jsval \<Rightarrow> exn + vnode" where
  "ResultCard_old p =
     (if \<not> truthy p then Inr VNull
      else
        let title = get_prop p ''title'';
            skillsToLearn = get_prop p ''skillsToLearn'';
            recommendedCourses = get_prop p ''recommendedCourses'';
            codeValidationResult = get_prop p ''codeValidationResult''
        in case and_map skillsToLearn skill_item of
             Inl e \<Rightarrow> Inl e
           | Inr items \<Rightarrow>
               (case and_map recommendedCourses course_link_old of
                  Inl e \<Rightarrow> Inl e
                | Inr links \<Rightarrow>
                    Inr (el ''div'' [''container'']
                      [card_header title,
                       skills_section items,
                       el ''div'' [''section'']
                         [el ''h4'' [''sectionTitle'']
                            [VText (books_icon @ '' Recommended Courses'')],
                          el ''div'' [''courseList''] [links]],
                       and_node codeValidationResult
                         (validation_section (check_icon @ '' Code Snippet Validation'')
                            codeValidationResult)])))"

section \<open>The orchestrator\<close>

text \<open>
  Modelled from the spec: the data model of the backend (section 3) and the results of its
  clients (sections 4.2 to 4.5). The Python orchestrator and its clients are not among the
  sources. A call of a client returns its result or fails; times are natural numbers; the
  error of the orchestrator is the kind that the error envelope carries (section 6).
\<close>

datatype failure = Unreachable | Malformed | TimedOut

datatype error_kind = ValidationError | AnalysisError | InternalError

record career_query =
  query_currentRole :: string
  query_targetRole :: string

record knowledge_snippet =
  snippet_title :: string
  snippet_description :: string
  category :: string

record course_result =
  course_skill :: string
  course_title :: string
  course_url :: string
  platform :: string
  duration :: "string option"
  level :: "string option"

record code_snippet =
  snippet_skill :: string
  language :: string
  code :: string
  description :: string

datatype validation_status = Success | Failure

record validation_result =
  status :: validation_status
  validation_output :: string
  validation_error :: "string option"
  executionTimeSeconds :: nat

record skill_courses =
  skill :: string
  courses :: "course_result list"

record career_path =
  title :: string
  skillsToLearn :: "string list"
  skillsWithCourses :: "skill_courses list"
  codeValidationResult :: validation_result

record trace_span =
  traceId :: nat
  stageName :: string
  errorKind :: "string option"

text \<open>
  Modelled from the spec: the reply of the Reasoning Client to Analyze (section 9, "a
  tagged-variant return from the Reasoning Client (FinalAnswer | ToolCallRequested)"): a
  final answer with the ordered skill names, or the request to call a named tool on a
  skill.
\<close>

datatype reasoning_reply = FinalAnswer "string list" | ToolCallRequested string string

text \<open>
  Modelled from the spec: the clients the Orchestrator composes (sections 4.2 to 4.5). Each
  call takes the trace id of the request first (section 3: the trace id is "threaded
  through every collaborator call"). \<open>reason_with_tool\<close> is the same reasoning turn once
  the result of the tool has been fed back.
\<close>

record collaborators =
  retrieve :: "nat \<Rightarrow> string \<Rightarrow> failure + knowledge_snippet list"
  reason :: "nat \<Rightarrow> career_query \<Rightarrow> knowledge_snippet list \<Rightarrow> failure + reasoning_reply"
  reason_with_tool ::
    "nat \<Rightarrow> career_query \<Rightarrow> knowledge_snippet list \<Rightarrow> string \<Rightarrow> course_result list
      \<Rightarrow> failure + reasoning_reply"
  invoke :: "nat \<Rightarrow> string \<Rightarrow> string \<Rightarrow> failure + course_result list"
  generate_snippet :: "nat \<Rightarrow> string \<Rightarrow> failure + code_snippet"
  validate :: "nat \<Rightarrow> string \<Rightarrow> string \<Rightarrow> failure + validation_result"

definition course_search :: string where
  "course_search = ''course_search''"

text \<open>
  Modelled from the spec: the input check of GenerateCareerPath (section 3, CareerQuery:
  "Both non-empty after trimming; otherwise rejected before orchestration starts").
\<close>

definition valid_query :: "career_query \<Rightarrow> bool" where
  "valid_query q =
     (trim_spec (query_currentRole q) \<noteq> [] \<and> trim_spec (query_targetRole q) \<noteq> [])"

definition kind_name :: "error_kind \<Rightarrow> string" where
  "kind_name k =
     (case k of
        ValidationError \<Rightarrow> ''ValidationError''
      | AnalysisError \<Rightarrow> ''AnalysisError''
      | InternalError \<Rightarrow> ''InternalError'')"

text \<open>
  Modelled from the spec: the span a stage emits (section 4.1, "every stage emits exactly
  one TraceSpan (success or failure) ..., tagged with the shared trace id"), with the
  error kind of section 7 when the stage's call failed.
\<close>

definition span :: "nat \<Rightarrow> string \<Rightarrow> string option \<Rightarrow> trace_span" where
  "span tid name err = \<lparr>traceId = tid, stageName = name, errorKind = err\<rparr>"

definition failed :: "failure + 'a \<Rightarrow> string \<Rightarrow> string option" where
  "failed r name = (case r of Inl f \<Rightarrow> Some name | Inr x \<Rightarrow> None)"

text \<open>
  Modelled from the spec: stage 1, Retrieve (section 4.1: "On failure or empty result
  set, record the error, continue with an empty context").
\<close>

definition retrieve_stage :: "collaborators \<Rightarrow> nat \<Rightarrow> career_query \<Rightarrow> knowledge_snippet list" where
  "retrieve_stage c tid q =
     (case retrieve c tid (query_targetRole q) of Inl f \<Rightarrow> [] | Inr ks \<Rightarrow> ks)"

text \<open>
  Modelled from the spec: the skill gap accepted from a final answer (section 3, SkillGap:
  "length fixed at 3 (or fewer if the model returns less)"; section 4.1, stage 2: "there is
  no meaningful fallback plan without skills identified", so an answer that names no skill
  fails the analysis).
\<close>

definition accept_gap :: "string list \<Rightarrow> error_kind + string list" where
  "accept_gap skills = (if skills = [] then Inl AnalysisError else Inr (take 3 skills))"

text \<open>
  Modelled from the spec: stage 2, Analyze, with its single tool round (section 4.1). A tool
  call is delegated to the Tool Gateway Client and its result (empty when the call fails)
  is fed back into the same turn; the answer of that turn is final, and a second tool
  request is not followed. A tool other than course search is an internal error (section
  4.4). The stage returns the gap and the courses the tool round already fetched.
\<close>

definition analyze_stage ::
  "collaborators \<Rightarrow> nat \<Rightarrow> career_query \<Rightarrow> knowledge_snippet list
    \<Rightarrow> error_kind + string list \<times> (string \<times> course_result list) list" where
  "analyze_stage c tid q ks =
     (case reason c tid q ks of
        Inl f \<Rightarrow> Inl AnalysisError
      | Inr (FinalAnswer skills) \<Rightarrow>
          (case accept_gap skills of Inl k \<Rightarrow> Inl k | Inr gap \<Rightarrow> Inr (gap, []))
      | Inr (ToolCallRequested tool s) \<Rightarrow>
          if tool \<noteq> course_search then Inl InternalError
          else
            let called = invoke c tid tool s;
                found = (case called of Inl f \<Rightarrow> [] | Inr cs \<Rightarrow> cs);
                satisfied = (case called of Inl f \<Rightarrow> [] | Inr cs \<Rightarrow> [(s, cs)])
            in case reason_with_tool c tid q ks s found of
                 Inl f \<Rightarrow> Inl AnalysisError
               | Inr (FinalAnswer skills) \<Rightarrow>
                   (case accept_gap skills of
                      Inl k \<Rightarrow> Inl k
                    | Inr gap \<Rightarrow> Inr (gap, satisfied))
               | Inr (ToolCallRequested tool' s') \<Rightarrow> Inl AnalysisError)"

text \<open>
  Modelled from the spec: the deduplication of identical skill names before course search
  (section 3, SkillGap); the first occurrence stays.
\<close>

fun dedup_from :: "string list \<Rightarrow> string list \<Rightarrow> string list" where
  "dedup_from seen [] = []"
| "dedup_from seen (x # xs) =
     (if x \<in> set seen then dedup_from seen xs else x # dedup_from (x # seen) xs)"

definition dedup :: "string list \<Rightarrow> string list" where
  "dedup xs = dedup_from [] xs"

text \<open>
  Modelled from the spec: stage 3, Fetch courses (section 4.1, and section 5: "each
  goroutine/task owns its own result slot, joined positionally by skill index"). The model
  is the joined result of the fan-out: one slot per skill, filled by that skill's call
  alone (or by the tool round of Analyze, when it fetched that skill); a failed call
  leaves the empty course list in its slot. The stage's span reports a ToolError when a
  call failed.
\<close>

definition fetch_one ::
  "collaborators \<Rightarrow> nat \<Rightarrow> (string \<times> course_result list) list \<Rightarrow> string \<Rightarrow> skill_courses" where
  "fetch_one c tid satisfied s =
     \<lparr>skill = s,
      courses =
        (case map_of satisfied s of
           Some cs \<Rightarrow> cs
         | None \<Rightarrow> (case invoke c tid course_search s of Inl f \<Rightarrow> [] | Inr cs \<Rightarrow> cs))\<rparr>"

definition fetch_courses ::
  "collaborators \<Rightarrow> nat \<Rightarrow> (string \<times> course_result list) list \<Rightarrow> string list
    \<Rightarrow> skill_courses list" where
  "fetch_courses c tid satisfied gap = map (fetch_one c tid satisfied) (dedup gap)"

definition fetch_failed ::
  "collaborators \<Rightarrow> nat \<Rightarrow> (string \<times> course_result list) list \<Rightarrow> string list \<Rightarrow> bool" where
  "fetch_failed c tid satisfied gap =
     list_ex (\<lambda>s. map_of satisfied s = None \<and> isl (invoke c tid course_search s)) (dedup gap)"

text \<open>
  Modelled from the spec: stage 4, Generate code (section 4.1: "On failure, substitute a
  deterministic, pre-defined safe fallback snippet for that skill's language and mark
  description accordingly"); the sandbox runs Python only (section 1).
\<close>

definition fallback_snippet :: "string \<Rightarrow> code_snippet" where
  "fallback_snippet s =
     \<lparr>snippet_skill = s, language = ''python'',
      code = ''print(42)'',
      description = ''Fallback example: code generation failed''\<rparr>"

definition generate_stage :: "collaborators \<Rightarrow> nat \<Rightarrow> string \<Rightarrow> code_snippet" where
  "generate_stage c tid s =
     (case generate_snippet c tid s of Inl f \<Rightarrow> fallback_snippet s | Inr sn \<Rightarrow> sn)"

text \<open>
  Modelled from the spec: stage 5, Validate (section 4.1: "On timeout or
  sandbox-unavailable, produce a ValidationResult{status: Failure, error: "validation
  unavailable"} rather than propagating the error").
\<close>

definition validation_unavailable :: validation_result where
  "validation_unavailable =
     \<lparr>status = Failure, validation_output = [],
      validation_error = Some ''validation unavailable'', executionTimeSeconds = 0\<rparr>"

definition validate_stage :: "collaborators \<Rightarrow> nat \<Rightarrow> code_snippet \<Rightarrow> validation_result" where
  "validate_stage c tid sn =
     (case validate c tid (code sn) (language sn) of
        Inl f \<Rightarrow> validation_unavailable
      | Inr v \<Rightarrow> v)"

text \<open>
  Modelled from the spec: the Orchestrator's GenerateCareerPath (section 4.1), the six
  stages in order, under the trace id of the request. It returns the response, a
  CareerPath or the kind of the error, and the spans recorded, one for each stage that
  ran. The title is the one of the repository's README.
\<close>

definition GenerateCareerPath ::
  "collaborators \<Rightarrow> nat \<Rightarrow> career_query \<Rightarrow> (error_kind + career_path) \<times> trace_span list" where
  "GenerateCareerPath c tid q =
     (if \<not> valid_query q then (Inl ValidationError, [])
      else
        let ks = retrieve_stage c tid q;
            span1 = span tid ''Retrieve''
                      (failed (retrieve c tid (query_targetRole q)) ''RetrievalError'')
        in case analyze_stage c tid q ks of
             Inl k \<Rightarrow> (Inl k, [span1, span tid ''Analyze'' (Some (kind_name k))])
           | Inr (gap, satisfied) \<Rightarrow>
               (case gap of
                  [] \<Rightarrow> (Inl AnalysisError,
                         [span1, span tid ''Analyze'' (Some (kind_name AnalysisError))])
                | first_skill # rest \<Rightarrow>
                    let found = fetch_courses c tid satisfied gap;
                        sn = generate_stage c tid first_skill;
                        v = validate_stage c tid sn
                    in (Inr \<lparr>title = ''Your Path from '' @ query_currentRole q @ '' to ''
                                      @ query_targetRole q,
                              skillsToLearn = gap,
                              skillsWithCourses = found,
                              codeValidationResult = v\<rparr>,
                        [span1,
                         span tid ''Analyze'' None,
                         span tid ''Fetch courses''
                           (if fetch_failed c tid satisfied gap then Some ''ToolError''
                            else None),
                         span tid ''Generate code''
                           (failed (generate_snippet c tid first_skill) ''GenerationError''),
                         span tid ''Validate''
                           (failed (validate c tid (code sn) (language sn)) ''SandboxError''),
                         span tid ''Assemble'' None])))"

text \<open>
  The stable fields of a response (spec, section 8): the skills and the validation status
  of a CareerPath, the kind of an error.
\<close>

definition stable_fields ::
  "error_kind + career_path \<Rightarrow> error_kind + string list \<times> validation_status" where
  "stable_fields r =
     (case r of
        Inl k \<Rightarrow> Inl k
      | Inr p \<Rightarrow> Inr (skillsToLearn p, status (codeValidationResult p)))"

text \<open>
  Two sandbox results that differ in the non-deterministic fields at most: both fail, or
  both are verdicts of the same status.
\<close>

definition same_verdict :: "failure + validation_result \<Rightarrow> failure + validation_result \<Rightarrow> bool" where
  "same_verdict a b =
     (case (a, b) of
        (Inl f, Inl g) \<Rightarrow> True
      | (Inr v, Inr w) \<Rightarrow> status v = status w
      | _ \<Rightarrow> False)"

section \<open>Notions used by the properties\<close>

text \<open>
  The component shows the result when \<^verbatim>\<open>plan\<close> is truthy and the alert when
  \<^verbatim>\<open>error\<close> is truthy (\<^verbatim>\<open>{plan && ...}\<close>, \<^verbatim>\<open>{error && ...}\<close>): this is what "set"
  means for the two.
\<close>

definition plan_set :: "component_state \<Rightarrow> bool" where
  "plan_set s = truthy (plan s)"

definition error_set :: "component_state \<Rightarrow> bool" where
  "error_set s = truthy (JStr (error s))"

definition demo_state :: component_state where
  "demo_state =
     initial_state\<lparr>currentRole := ''Frontend Developer'', targetRole := ''ML Engineer''\<rparr>"

text \<open>
  The contract of the API (docs/architecture.md, section 5.1; spec, section 6): the body of
  a response that is ok is a CareerPath, a JSON object, and the message of the error in
  the body of a response that is not ok, when there is one, is a string. The errors that
  the platform raises (the network failure, the SyntaxError of a body that is no JSON)
  carry a message.
\<close>

definition is_object :: "jsval \<Rightarrow> bool" where
  "is_object v = (case v of JObj kvs \<Rightarrow> True | _ \<Rightarrow> False)"

definition string_or_missing :: "jsval \<Rightarrow> bool" where
  "string_or_missing v = (case v of JStr m \<Rightarrow> True | _ \<Rightarrow> v = JUndefined \<or> v = JNull)"

definition api_contract :: "fetch_result \<Rightarrow> bool" where
  "api_contract r =
     (case r of
        NetworkFailure e \<Rightarrow> message e \<noteq> []
      | Response is_ok parsed \<Rightarrow>
          (case parsed of
             Rejected e \<Rightarrow> (if is_ok then message e \<noteq> [] else True)
           | Resolved v \<Rightarrow>
               (if is_ok then is_object v
                else string_or_missing (opt_prop (opt_prop v ''error'') ''message''))))"


text \<open>What the client reads of a response that is not ok: \<^verbatim>\<open>errorData?.error?.message\<close>.\<close>

definition error_message_field :: "jsval promise \<Rightarrow> jsval" where
  "error_message_field parsed =
     (case parsed of
        Resolved b \<Rightarrow> opt_prop (opt_prop b ''error'') ''message''
      | Rejected e \<Rightarrow> JUndefined)"

text \<open>
  The box that carries the validation styling in a rendered card: the second child of the
  card's fourth child.
\<close>

definition validation_box :: "vnode \<Rightarrow> vnode" where
  "validation_box t = children (children t ! 3) ! 1"

text \<open>
  Mocked collaborators for the scenario of the spec, section 8: the gap is Python, ML
  Fundamentals, Data Structures; course search gives two courses for a skill, or fails for
  the skills listed in \<open>failing\<close>; code generation fails, so the fallback snippet is run;
  the sandbox says Success after \<open>t\<close> seconds. No client looks at the trace id.
\<close>

definition demo_course :: "string \<Rightarrow> string \<Rightarrow> course_result" where
  "demo_course s t =
     \<lparr>course_skill = s, course_title = t, course_url = ''https://example.com/course'',
      platform = ''Example'', duration = None, level = None\<rparr>"

definition demo_gap :: "string list" where
  "demo_gap = [''Python'', ''ML Fundamentals'', ''Data Structures'']"

definition mock :: "string list \<Rightarrow> nat \<Rightarrow> collaborators" where
  "mock failing t =
     \<lparr>retrieve = (\<lambda>tid role. Inr []),
      reason = (\<lambda>tid q ks. Inr (FinalAnswer demo_gap)),
      reason_with_tool = (\<lambda>tid q ks s cs. Inl Malformed),
      invoke = (\<lambda>tid tool s. if s \<in> set failing then Inl TimedOut
                  else Inr [demo_course s ''Basics'', demo_course s ''Advanced'']),
      generate_snippet = (\<lambda>tid s. Inl Malformed),
      validate = (\<lambda>tid cd lang. Inr \<lparr>status = Success, validation_output = ''42'',
                    validation_error = None, executionTimeSeconds = t\<rparr>)\<rparr>"

definition demo_query :: career_query where
  "demo_query =
     \<lparr>query_currentRole = ''Frontend Developer'',
      query_targetRole = ''Machine Learning Engineer''\<rparr>"

definition mock_no_skills :: collaborators where
  "mock_no_skills = (mock [] 1)\<lparr>reason := (\<lambda>tid q ks. Inr (FinalAnswer []))\<rparr>"

section \<open>Helper lemmas\<close>

lemma and_map_falsy: "\<not> truthy v \<Longrightarrow> and_map v f = Inr (VExpr v)"
  by (simp add: and_map_def)

lemma get_prop_absent: "map_of kvs k = None \<Longrightarrow> get_prop (JObj kvs) k = JUndefined"
  by simp


lemma ResultCard_truthy:
  "truthy P \<Longrightarrow>
   ResultCard P =
     (case and_map (get_prop P ''skillsToLearn'') skill_item of
        Inl e \<Rightarrow> Inl e
      | Inr items \<Rightarrow>
          (case and_map (get_prop P ''skillsWithCourses'') skill_section of
             Inl e \<Rightarrow> Inl e
           | Inr sections \<Rightarrow>
               Inr (el ''div'' [''container'']
                 [card_header (get_prop P ''title''),
                  skills_section items,
                  el ''div'' [''section'']
                    [el ''h4'' [''sectionTitle''] [VText (books_icon @ '' Recommended Courses'')],
                     sections],
                  and_node (get_prop P ''codeValidationResult'')
                    (validation_section (check_icon @ '' Overall Validation Status'')
                       (get_prop P ''codeValidationResult''))])))"
  by (simp add: ResultCard_def Let_def)

lemma ResultCard_old_truthy:
  "truthy P \<Longrightarrow>
   ResultCard_old P =
     (case and_map (get_prop P ''skillsToLearn'') skill_item of
        Inl e \<Rightarrow> Inl e
      | Inr items \<Rightarrow>
          (case and_map (get_prop P ''recommendedCourses'') course_link_old of
             Inl e \<Rightarrow> Inl e
           | Inr links \<Rightarrow>
               Inr (el ''div'' [''container'']
                 [card_header (get_prop P ''title''),
                  skills_section items,
                  el ''div'' [''section'']
                    [el ''h4'' [''sectionTitle''] [VText (books_icon @ '' Recommended Courses'')],
                     el ''div'' [''courseList''] [links]],
                  and_node (get_prop P ''codeValidationResult'')
                    (validation_section (check_icon @ '' Code Snippet Validation'')
                       (get_prop P ''codeValidationResult''))])))"
  by (simp add: ResultCard_old_def Let_def)

lemma ResultCard_validation_child:
  assumes "truthy P" and "ResultCard P = Inr t"
  shows "children t ! 3 =
     and_node (get_prop P ''codeValidationResult'')
       (validation_section (check_icon @ '' Overall Validation Status'')
          (get_prop P ''codeValidationResult''))"
  using assms(2) unfolding ResultCard_truthy [OF assms(1)]
  by (auto simp: el_def split: sum.splits)

lemma ResultCard_old_validation_child:
  assumes "truthy P" and "ResultCard_old P = Inr t"
  shows "children t ! 3 =
     and_node (get_prop P ''codeValidationResult'')
       (validation_section (check_icon @ '' Code Snippet Validation'')
          (get_prop P ''codeValidationResult''))"
  using assms(2) unfolding ResultCard_old_truthy [OF assms(1)]
  by (auto simp: el_def split: sum.splits)

lemma validation_section_style:
  "style (children (validation_section h v) ! Suc 0) =
     [''validationBox'', validation_style (get_prop v ''status'')]"
  by (simp add: validation_section_def el_def)

lemma set_dedup_from: "set (dedup_from seen xs) = set xs - set seen"
  by (induction xs arbitrary: seen) auto

lemma distinct_dedup_from: "distinct (dedup_from seen xs)"
  by (induction xs arbitrary: seen) (auto simp: set_dedup_from)

lemma dedup_distinct: "distinct (dedup xs) \<and> set (dedup xs) = set xs"
  by (simp add: dedup_def distinct_dedup_from set_dedup_from)

lemma analyze_stage_gap:
  assumes "analyze_stage c tid q ks = Inr (gap, sat)"
  shows "gap \<noteq> [] \<and> length gap \<le> 3"
  using assms
  by (auto simp: analyze_stage_def accept_gap_def Let_def
      split: sum.splits reasoning_reply.splits if_splits)

lemma analyze_stage_final:
  assumes "reason c tid q ks = Inr (FinalAnswer skills)" and "skills \<noteq> []"
  shows "analyze_stage c tid q ks = Inr (take 3 skills, [])"
  using assms by (simp add: analyze_stage_def accept_gap_def)

lemma GenerateCareerPath_analyzed:
  assumes "valid_query q" and "analyze_stage c tid q (retrieve_stage c tid q) = Inr (gap, sat)"
  shows "fst (GenerateCareerPath c tid q) =
     Inr \<lparr>title = ''Your Path from '' @ query_currentRole q @ '' to '' @ query_targetRole q,
          skillsToLearn = gap,
          skillsWithCourses = fetch_courses c tid sat gap,
          codeValidationResult = validate_stage c tid (generate_stage c tid (hd gap))\<rparr>"
    and "map stageName (snd (GenerateCareerPath c tid q)) =
     [''Retrieve'', ''Analyze'', ''Fetch courses'', ''Generate code'', ''Validate'', ''Assemble'']"
    and "list_all (\<lambda>sp. traceId sp = tid) (snd (GenerateCareerPath c tid q))"
proof -
  from analyze_stage_gap [OF assms(2)] obtain x xs where "gap = x # xs"
    by (cases gap) auto
  with assms show "fst (GenerateCareerPath c tid q) =
     Inr \<lparr>title = ''Your Path from '' @ query_currentRole q @ '' to '' @ query_targetRole q,
          skillsToLearn = gap,
          skillsWithCourses = fetch_courses c tid sat gap,
          codeValidationResult = validate_stage c tid (generate_stage c tid (hd gap))\<rparr>"
    and "map stageName (snd (GenerateCareerPath c tid q)) =
     [''Retrieve'', ''Analyze'', ''Fetch courses'', ''Generate code'', ''Validate'', ''Assemble'']"
    and "list_all (\<lambda>sp. traceId sp = tid) (snd (GenerateCareerPath c tid q))"
    by (simp_all add: GenerateCareerPath_def Let_def span_def)
qed

lemma GenerateCareerPath_invalid:
  "\<not> valid_query q \<Longrightarrow> GenerateCareerPath c tid q = (Inl ValidationError, [])"
  by (simp add: GenerateCareerPath_def)

lemma GenerateCareerPath_analysis_failed:
  assumes "valid_query q" and "analyze_stage c tid q (retrieve_stage c tid q) = Inl k"
  shows "fst (GenerateCareerPath c tid q) = Inl k
     \<and> map stageName (snd (GenerateCareerPath c tid q)) = [''Retrieve'', ''Analyze'']"
  using assms by (simp add: GenerateCareerPath_def Let_def span_def)

section \<open>The submit gate\<close>

text \<open>
  C1, as the spec states it, fails: a role of white space only is empty after trimming, but
  the gate tests the untrimmed string, so the button stays enabled.
\<close>

theorem C1_whitespace_role_not_blocked:
  "empty_role_spec (initial_state\<lparr>currentRole := '' '', targetRole := ''Engineer''\<rparr>)
   \<and> \<not> isButtonDisabled (initial_state\<lparr>currentRole := '' '', targetRole := ''Engineer''\<rparr>)"
  by (simp add: empty_role_spec_def trim_spec_def is_space_def isButtonDisabled_def
      initial_state_def)

text \<open>
  C1 (amended): the submit gate blocks submission exactly when the current role or the
  target role is the empty string, or a request is already in flight.
\<close>

theorem C1_gate_blocks_empty_roles:
  "isButtonDisabled s = (currentRole s = [] \<or> targetRole s = [] \<or> isLoading s)"
  by (simp add: isButtonDisabled_def)

theorem C1_gate_blocks_empty_roles_witness:
  "isButtonDisabled (initial_state\<lparr>currentRole := ''Frontend Developer''\<rparr>)
   \<and> \<not> isButtonDisabled demo_state"
  using C1_gate_blocks_empty_roles [of "initial_state\<lparr>currentRole := ''Frontend Developer''\<rparr>"]
    C1_gate_blocks_empty_roles [of demo_state]
  by (simp add: initial_state_def demo_state_def)

text \<open>
  The handler itself checks nothing: with a role of white space only it sends the request,
  and the state it leaves is the one the response decides.
\<close>

lemma handleSubmit_sends_whitespace_role:
  "handleSubmit
     (\<lambda>rq. if body rq = JObj [(''currentRole'', JStr '' ''), (''targetRole'', JStr ''Engineer'')]
           then Response True (Resolved (JObj [(''title'', JStr ''sent'')]))
           else NetworkFailure (Error ''not sent''))
     (initial_state\<lparr>currentRole := '' '', targetRole := ''Engineer''\<rparr>)
   = initial_state\<lparr>currentRole := '' '', targetRole := ''Engineer'',
       plan := JObj [(''title'', JStr ''sent'')]\<rparr>"
  by (simp add: handleSubmit_def handleSubmit_start_def generateCareerPath_def api_request_def
      initial_state_def)

section \<open>One outcome of a submitted request\<close>

text \<open>
  What the handler leaves behind, for every way the request can settle: isLoading is
  false, the plan and the error are never both set, and one of them is set exactly when
  the request resolved with a truthy value or was rejected with a message that is not
  empty.
\<close>

lemma handleSubmit_outcome:
  "\<not> isLoading (handleSubmit fetch s)
   \<and> \<not> (plan_set (handleSubmit fetch s) \<and> error_set (handleSubmit fetch s))
   \<and> plan_set (handleSubmit fetch s) =
       (case generateCareerPath fetch (currentRole s) (targetRole s) of
          Resolved v \<Rightarrow> truthy v
        | Rejected e \<Rightarrow> False)
   \<and> error_set (handleSubmit fetch s) =
       (case generateCareerPath fetch (currentRole s) (targetRole s) of
          Resolved v \<Rightarrow> False
        | Rejected e \<Rightarrow> message e \<noteq> [])"
  by (simp add: plan_set_def error_set_def handleSubmit_def handleSubmit_start_def
      split: promise.splits)

lemma to_string_nonempty:
  "string_or_missing v \<Longrightarrow> truthy v \<Longrightarrow> \<exists>m. to_string v = Inr m \<and> m \<noteq> []"
  by (cases v) (auto simp: string_or_missing_def)

lemma generateCareerPath_contract:
  assumes "api_contract (fetch (api_request cur tgt))"
  shows "(\<exists>kvs. fetch (api_request cur tgt) = Response True (Resolved (JObj kvs))
            \<and> generateCareerPath fetch cur tgt = Resolved (JObj kvs))
       \<or> ((\<forall>v. fetch (api_request cur tgt) \<noteq> Response True (Resolved v))
            \<and> (\<exists>e. generateCareerPath fetch cur tgt = Rejected e \<and> message e \<noteq> []))"
proof (cases "fetch (api_request cur tgt)")
  case (NetworkFailure e)
  with assms show ?thesis
    by (simp add: api_contract_def generateCareerPath_def)
next
  case (Response is_ok parsed)
  show ?thesis
  proof (cases parsed)
    case (Rejected e)
    with Response assms show ?thesis
      by (auto simp: api_contract_def generateCareerPath_def js_or_def opt_prop_def
          nullish_def generic_message_def)
  next
    case (Resolved v)
    show ?thesis
    proof (cases is_ok)
      case True
      with Response Resolved assms show ?thesis
        by (cases v) (simp_all add: api_contract_def generateCareerPath_def is_object_def)
    next
      case False
      with Response Resolved assms
      have sm: "string_or_missing (opt_prop (opt_prop v ''error'') ''message'')"
        by (simp add: api_contract_def)
      show ?thesis
      proof (cases "truthy (opt_prop (opt_prop v ''error'') ''message'')")
        case True
        from to_string_nonempty [OF sm True] Response Resolved False True show ?thesis
          by (auto simp: generateCareerPath_def js_or_def)
      next
        case nt: False
        with Response Resolved False show ?thesis
          by (simp add: generateCareerPath_def js_or_def generic_message_def)
      qed
    qed
  qed
qed

text \<open>
  C3: once handleSubmit has finished, on every exit path, isLoading is false and the plan
  and the error are never both set; and for every response within the contract of the API
  exactly one of the two is set: the plan when the response is ok and carries its
  CareerPath, the error on every failure.
\<close>

theorem C3_one_outcome:
  "\<not> isLoading (handleSubmit fetch s)
   \<and> \<not> (plan_set (handleSubmit fetch s) \<and> error_set (handleSubmit fetch s))
   \<and> (api_contract (fetch (api_request (currentRole s) (targetRole s))) \<longrightarrow>
        plan_set (handleSubmit fetch s) \<noteq> error_set (handleSubmit fetch s)
        \<and> plan_set (handleSubmit fetch s) =
            (\<exists>v. fetch (api_request (currentRole s) (targetRole s)) = Response True (Resolved v))
        \<and> (\<forall>v. fetch (api_request (currentRole s) (targetRole s)) = Response True (Resolved v)
              \<longrightarrow> plan (handleSubmit fetch s) = v \<and> error (handleSubmit fetch s) = []))"
proof -
  have "plan_set (handleSubmit fetch s) \<noteq> error_set (handleSubmit fetch s)
        \<and> plan_set (handleSubmit fetch s) =
            (\<exists>v. fetch (api_request (currentRole s) (targetRole s)) = Response True (Resolved v))"
    if "api_contract (fetch (api_request (currentRole s) (targetRole s)))"
    using generateCareerPath_contract [of fetch "currentRole s" "targetRole s"] that
      handleSubmit_outcome [of fetch s]
    by auto
  moreover have "plan (handleSubmit fetch s) = v \<and> error (handleSubmit fetch s) = []"
    if "fetch (api_request (currentRole s) (targetRole s)) = Response True (Resolved v)" for v
    using that
    by (simp add: handleSubmit_def handleSubmit_start_def generateCareerPath_def)
  ultimately show ?thesis
    using handleSubmit_outcome [of fetch s] by blast
qed

theorem C3_one_outcome_witness:
  "plan_set (handleSubmit
      (\<lambda>rq. Response True (Resolved (JObj [(''title'', JStr ''Your Path'')]))) demo_state)
   \<and> \<not> error_set (handleSubmit
      (\<lambda>rq. Response True (Resolved (JObj [(''title'', JStr ''Your Path'')]))) demo_state)
   \<and> \<not> plan_set (handleSubmit
      (\<lambda>rq. Response False (Resolved (JObj [(''error'',
         JObj [(''kind'', JStr ''AnalysisError''), (''message'', JStr ''analysis failed'')])])))
      demo_state)
   \<and> error_set (handleSubmit
      (\<lambda>rq. Response False (Resolved (JObj [(''error'',
         JObj [(''kind'', JStr ''AnalysisError''), (''message'', JStr ''analysis failed'')])])))
      demo_state)"
proof -
  have ok: "api_contract (Response True (Resolved (JObj [(''title'', JStr ''Your Path'')])))"
    by (simp add: api_contract_def is_object_def)
  have failed: "api_contract (Response False (Resolved (JObj [(''error'',
         JObj [(''kind'', JStr ''AnalysisError''), (''message'', JStr ''analysis failed'')])])))"
    by (simp add: api_contract_def string_or_missing_def opt_prop_def nullish_def)
  show ?thesis
    using ok failed
      C3_one_outcome
        [of "\<lambda>rq. Response True (Resolved (JObj [(''title'', JStr ''Your Path'')]))" demo_state]
      C3_one_outcome
        [of "\<lambda>rq. Response False (Resolved (JObj [(''error'',
               JObj [(''kind'', JStr ''AnalysisError''), (''message'', JStr ''analysis failed'')])]))"
            demo_state]
    by auto
qed

text \<open>
  The handler has no guard of its own: the contract is what excludes a response that is ok
  and carries no object.
\<close>

lemma handleSubmit_outside_contract:
  "\<not> api_contract (Response True (Resolved JNull))
   \<and> handleSubmit (\<lambda>rq. Response True (Resolved JNull)) demo_state = demo_state"
  by (simp add: api_contract_def is_object_def handleSubmit_def handleSubmit_start_def
      generateCareerPath_def demo_state_def initial_state_def)

section \<open>The API client\<close>




text \<open>
  The whole of the path of a response that is not ok: a truthy \<^verbatim>\<open>error.message\<close> is
  converted to a string for the Error, and where it has no string form the conversion's
  TypeError is what the client throws.
\<close>

lemma generateCareerPath_not_ok:
  assumes "fetch (api_request cur tgt) = Response False parsed"
  shows "generateCareerPath fetch cur tgt =
     (if truthy (error_message_field parsed)
      then (case to_string (error_message_field parsed) of
              Inr m \<Rightarrow> Rejected (Error m)
            | Inl e \<Rightarrow> Rejected (ConversionTypeError cannot_convert_message))
      else Rejected (Error generic_message))"
  using assms
  by (auto simp: generateCareerPath_def error_message_field_def js_or_def opt_prop_def
      nullish_def split: promise.splits sum.splits)

lemma message_object_with_toString_key:
  "generateCareerPath
     (\<lambda>rq. Response False (Resolved
        (JObj [(''error'', JObj [(''message'', JObj [(''toString'', JNum ''1'')])])])))
     ''Frontend Developer'' ''ML Engineer''
   = Rejected (ConversionTypeError cannot_convert_message)"
  by (simp add: generateCareerPath_def js_or_def opt_prop_def nullish_def)

section \<open>The result display\<close>

lemma ResultCard_places:
  assumes "ResultCard (JObj p) = Inr t"
  shows "children t ! 0 = card_header (get_prop (JObj p) ''title'')"
    and "\<exists>items. and_map (get_prop (JObj p) ''skillsToLearn'') skill_item = Inr items
           \<and> children t ! 1 = skills_section items"
    and "\<exists>sections. and_map (get_prop (JObj p) ''skillsWithCourses'') skill_section = Inr sections
           \<and> children (children t ! 2) ! 1 = sections"
    and "children t ! 3 =
           and_node (get_prop (JObj p) ''codeValidationResult'')
             (validation_section (check_icon @ '' Overall Validation Status'')
                (get_prop (JObj p) ''codeValidationResult''))"
  using assms
  by (auto simp: ResultCard_truthy el_def simp del: get_prop.simps split: sum.splits)

lemma ResultCard_old_places:
  assumes "ResultCard_old (JObj p) = Inr t"
  shows "children t ! 0 = card_header (get_prop (JObj p) ''title'')"
    and "\<exists>items. and_map (get_prop (JObj p) ''skillsToLearn'') skill_item = Inr items
           \<and> children t ! 1 = skills_section items"
    and "\<exists>links. and_map (get_prop (JObj p) ''recommendedCourses'') course_link_old = Inr links
           \<and> children (children t ! 2) ! 1 = el ''div'' [''courseList''] [links]"
    and "children t ! 3 =
           and_node (get_prop (JObj p) ''codeValidationResult'')
             (validation_section (check_icon @ '' Code Snippet Validation'')
                (get_prop (JObj p) ''codeValidationResult''))"
  using assms
  by (auto simp: ResultCard_old_truthy el_def simp del: get_prop.simps split: sum.splits)

text \<open>
  C4: the fields of the plan that the result display reads are title, skillsToLearn,
  skillsWithCourses and codeValidationResult, and no other. Two plan objects that agree on
  these four are rendered alike, whatever else they hold; each of the four is read: in
  every card rendered the title stands in the header, the items made of skillsToLearn in
  the list of skills, the sections made of skillsWithCourses under the courses heading and
  the section made of codeValidationResult last, and changing one of the four alone
  changes the card. The older variant reads recommendedCourses in the place of
  skillsWithCourses, and puts its links in the course list.
\<close>

theorem C4_fields_read:
  "(get_prop (JObj p) ''title'' = get_prop (JObj q) ''title''
      \<and> get_prop (JObj p) ''skillsToLearn'' = get_prop (JObj q) ''skillsToLearn''
      \<and> get_prop (JObj p) ''skillsWithCourses'' = get_prop (JObj q) ''skillsWithCourses''
      \<and> get_prop (JObj p) ''codeValidationResult'' = get_prop (JObj q) ''codeValidationResult''
      \<longrightarrow> ResultCard (JObj p) = ResultCard (JObj q))
   \<and> (get_prop (JObj p) ''title'' = get_prop (JObj q) ''title''
      \<and> get_prop (JObj p) ''skillsToLearn'' = get_prop (JObj q) ''skillsToLearn''
      \<and> get_prop (JObj p) ''recommendedCourses'' = get_prop (JObj q) ''recommendedCourses''
      \<and> get_prop (JObj p) ''codeValidationResult'' = get_prop (JObj q) ''codeValidationResult''
      \<longrightarrow> ResultCard_old (JObj p) = ResultCard_old (JObj q))
   \<and> (ResultCard (JObj p) = Inr t \<longrightarrow>
        children t ! 0 = card_header (get_prop (JObj p) ''title'')
        \<and> (\<exists>items. and_map (get_prop (JObj p) ''skillsToLearn'') skill_item = Inr items
              \<and> children t ! 1 = skills_section items)
        \<and> (\<exists>sections.
              and_map (get_prop (JObj p) ''skillsWithCourses'') skill_section = Inr sections
              \<and> children (children t ! 2) ! 1 = sections)
        \<and> children t ! 3 =
             and_node (get_prop (JObj p) ''codeValidationResult'')
               (validation_section (check_icon @ '' Overall Validation Status'')
                  (get_prop (JObj p) ''codeValidationResult'')))
   \<and> (ResultCard_old (JObj p) = Inr t \<longrightarrow>
        children t ! 0 = card_header (get_prop (JObj p) ''title'')
        \<and> (\<exists>items. and_map (get_prop (JObj p) ''skillsToLearn'') skill_item = Inr items
              \<and> children t ! 1 = skills_section items)
        \<and> (\<exists>links.
              and_map (get_prop (JObj p) ''recommendedCourses'') course_link_old = Inr links
              \<and> children (children t ! 2) ! 1 = el ''div'' [''courseList''] [links])
        \<and> children t ! 3 =
             and_node (get_prop (JObj p) ''codeValidationResult'')
               (validation_section (check_icon @ '' Code Snippet Validation'')
                  (get_prop (JObj p) ''codeValidationResult'')))
   \<and> ResultCard (JObj [(''title'', JStr ''A'')]) \<noteq> ResultCard (JObj [(''title'', JStr ''B'')])
   \<and> ResultCard (JObj [(''skillsToLearn'', JArr [JStr ''Python''])])
       \<noteq> ResultCard (JObj [(''skillsToLearn'', JArr [JStr ''SQL''])])
   \<and> ResultCard (JObj [(''skillsWithCourses'', JArr [JObj [(''skill'', JStr ''Python'')]])])
       \<noteq> ResultCard (JObj [(''skillsWithCourses'', JArr [JObj [(''skill'', JStr ''SQL'')]])])
   \<and> ResultCard (JObj [(''codeValidationResult'', JObj [(''status'', JStr ''Success'')])])
       \<noteq> ResultCard (JObj [(''codeValidationResult'', JObj [(''status'', JStr ''Failure'')])])
   \<and> ResultCard_old (JObj [(''title'', JStr ''A'')])
       \<noteq> ResultCard_old (JObj [(''title'', JStr ''B'')])
   \<and> ResultCard_old (JObj [(''skillsToLearn'', JArr [JStr ''Python''])])
       \<noteq> ResultCard_old (JObj [(''skillsToLearn'', JArr [JStr ''SQL''])])
   \<and> ResultCard_old (JObj [(''recommendedCourses'', JArr [JObj [(''skill'', JStr ''Python'')]])])
       \<noteq> ResultCard_old (JObj [(''recommendedCourses'', JArr [JObj [(''skill'', JStr ''SQL'')]])])
   \<and> ResultCard_old (JObj [(''codeValidationResult'', JObj [(''status'', JStr ''Success'')])])
       \<noteq> ResultCard_old (JObj [(''codeValidationResult'', JObj [(''status'', JStr ''Failure'')])])"
proof -
  have same: "get_prop (JObj p) ''title'' = get_prop (JObj q) ''title''
      \<and> get_prop (JObj p) ''skillsToLearn'' = get_prop (JObj q) ''skillsToLearn''
      \<and> get_prop (JObj p) ''skillsWithCourses'' = get_prop (JObj q) ''skillsWithCourses''
      \<and> get_prop (JObj p) ''codeValidationResult'' = get_prop (JObj q) ''codeValidationResult''
      \<longrightarrow> ResultCard (JObj p) = ResultCard (JObj q)"
    by (simp add: ResultCard_truthy del: get_prop.simps cong: sum.case_cong)
  have same_old: "get_prop (JObj p) ''title'' = get_prop (JObj q) ''title''
      \<and> get_prop (JObj p) ''skillsToLearn'' = get_prop (JObj q) ''skillsToLearn''
      \<and> get_prop (JObj p) ''recommendedCourses'' = get_prop (JObj q) ''recommendedCourses''
      \<and> get_prop (JObj p) ''codeValidationResult'' = get_prop (JObj q) ''codeValidationResult''
      \<longrightarrow> ResultCard_old (JObj p) = ResultCard_old (JObj q)"
    by (simp add: ResultCard_old_truthy del: get_prop.simps cong: sum.case_cong)
  have differ: "ResultCard (JObj [(''title'', JStr ''A'')])
        \<noteq> ResultCard (JObj [(''title'', JStr ''B'')])"
    "ResultCard (JObj [(''skillsToLearn'', JArr [JStr ''Python''])])
       \<noteq> ResultCard (JObj [(''skillsToLearn'', JArr [JStr ''SQL''])])"
    "ResultCard (JObj [(''skillsWithCourses'', JArr [JObj [(''skill'', JStr ''Python'')]])])
       \<noteq> ResultCard (JObj [(''skillsWithCourses'', JArr [JObj [(''skill'', JStr ''SQL'')]])])"
    "ResultCard (JObj [(''codeValidationResult'', JObj [(''status'', JStr ''Success'')])])
       \<noteq> ResultCard (JObj [(''codeValidationResult'', JObj [(''status'', JStr ''Failure'')])])"
    by (simp_all add: ResultCard_truthy and_map_def and_node_def card_header_def
        skills_section_def validation_section_def validation_style_def skill_item_def
        skill_section_def nullish_def js_or_def el_def)
  have differ_old: "ResultCard_old (JObj [(''title'', JStr ''A'')])
       \<noteq> ResultCard_old (JObj [(''title'', JStr ''B'')])"
    "ResultCard_old (JObj [(''skillsToLearn'', JArr [JStr ''Python''])])
       \<noteq> ResultCard_old (JObj [(''skillsToLearn'', JArr [JStr ''SQL''])])"
    "ResultCard_old (JObj [(''recommendedCourses'', JArr [JObj [(''skill'', JStr ''Python'')]])])
       \<noteq> ResultCard_old (JObj [(''recommendedCourses'', JArr [JObj [(''skill'', JStr ''SQL'')]])])"
    "ResultCard_old (JObj [(''codeValidationResult'', JObj [(''status'', JStr ''Success'')])])
       \<noteq> ResultCard_old (JObj [(''codeValidationResult'', JObj [(''status'', JStr ''Failure'')])])"
    by (simp_all add: ResultCard_old_truthy and_map_def and_node_def card_header_def
        skills_section_def validation_section_def validation_style_def skill_item_def
        course_link_old_def nullish_def js_or_def el_def)
  show ?thesis
    using same same_old differ differ_old ResultCard_places [of p t] ResultCard_old_places [of p t]
    by blast
qed

theorem C4_fields_read_witness:
  "ResultCard (JObj [(''title'', JStr ''Your Path''), (''skillsToLearn'', JArr [JStr ''Python'']),
                     (''recommendedCourses'', JArr [JNull])])
   = ResultCard (JObj [(''traceId'', JNum ''7''), (''skillsToLearn'', JArr [JStr ''Python'']),
                       (''title'', JStr ''Your Path'')])
   \<and> ResultCard_old (JObj [(''title'', JStr ''Your Path''), (''skillsWithCourses'', JStr ''x'')])
   = ResultCard_old (JObj [(''title'', JStr ''Your Path'')])
   \<and> (\<exists>t. ResultCard (JObj [(''title'', JStr ''Your Path''),
                              (''skillsToLearn'', JArr [JStr ''Python''])]) = Inr t
          \<and> children t ! 0 = card_header (JStr ''Your Path'')
          \<and> children t ! 1 =
              skills_section (VArray [VElem ''li'' (Some 0) [''listItem''] [] [VExpr (JStr ''Python'')]]))"
proof -
  obtain t where t: "ResultCard (JObj [(''title'', JStr ''Your Path''),
                              (''skillsToLearn'', JArr [JStr ''Python''])]) = Inr t"
    by (simp add: ResultCard_truthy and_map_def skill_item_def)
  show ?thesis
    using t
      C4_fields_read
        [of "[(''title'', JStr ''Your Path''), (''skillsToLearn'', JArr [JStr ''Python'']),
              (''recommendedCourses'', JArr [JNull])]"
            "[(''traceId'', JNum ''7''), (''skillsToLearn'', JArr [JStr ''Python'']),
              (''title'', JStr ''Your Path'')]"]
      C4_fields_read
        [of "[(''title'', JStr ''Your Path''), (''skillsWithCourses'', JStr ''x'')]"
            "[(''title'', JStr ''Your Path'')]"]
      C4_fields_read
        [of "[(''title'', JStr ''Your Path''), (''skillsToLearn'', JArr [JStr ''Python''])]"
            "[]" t]
    by (auto simp: and_map_def skill_item_def)
qed

text \<open>
  C7: the status of a validation result has the two values Success and Failure only, and
  the result display, in both variants, gives the box of a rendered codeValidationResult
  the success styling exactly when its status is the string "Success"; every other status,
  Failure among them, gets the failure styling.
\<close>

theorem C7_success_styling:
  "(st = Success \<or> st = Failure)
   \<and> (truthy P \<and> truthy (get_prop P ''codeValidationResult'')
        \<and> (ResultCard P = Inr t \<or> ResultCard_old P = Inr t) \<longrightarrow>
      style (validation_box t) =
        [''validationBox'',
         if get_prop (get_prop P ''codeValidationResult'') ''status'' = JStr ''Success''
         then ''validationSuccess'' else ''validationError''])"
proof -
  have "st = Success \<or> st = Failure" by (cases st) simp_all
  moreover have "style (validation_box t) =
        [''validationBox'',
         if get_prop (get_prop P ''codeValidationResult'') ''status'' = JStr ''Success''
         then ''validationSuccess'' else ''validationError'']"
    if P: "truthy P" and v: "truthy (get_prop P ''codeValidationResult'')"
      and t: "ResultCard P = Inr t \<or> ResultCard_old P = Inr t"
  proof -
    from t obtain h where
      "children t ! 3 = and_node (get_prop P ''codeValidationResult'')
         (validation_section h (get_prop P ''codeValidationResult''))"
      using ResultCard_validation_child [OF P] ResultCard_old_validation_child [OF P] by blast
    with v show ?thesis
      by (simp add: validation_box_def and_node_def validation_section_style
          validation_style_def)
  qed
  ultimately show ?thesis by blast
qed

theorem C7_success_styling_witness:
  "(\<exists>t. ResultCard (JObj [(''codeValidationResult'', JObj [(''status'', JStr ''Success'')])]) = Inr t
        \<and> style (validation_box t) = [''validationBox'', ''validationSuccess''])
   \<and> (\<exists>t. ResultCard_old (JObj [(''codeValidationResult'', JObj [(''status'', JStr ''Failure'')])]) = Inr t
        \<and> style (validation_box t) = [''validationBox'', ''validationError''])
   \<and> (\<exists>t. ResultCard (JObj [(''codeValidationResult'', JObj [(''status'', JStr ''success'')])]) = Inr t
        \<and> style (validation_box t) = [''validationBox'', ''validationError''])"
proof -
  obtain t1 where t1:
    "ResultCard (JObj [(''codeValidationResult'', JObj [(''status'', JStr ''Success'')])]) = Inr t1"
    by (simp add: ResultCard_truthy and_map_def)
  obtain t2 where t2:
    "ResultCard_old (JObj [(''codeValidationResult'', JObj [(''status'', JStr ''Failure'')])]) = Inr t2"
    by (simp add: ResultCard_old_truthy and_map_def)
  obtain t3 where t3:
    "ResultCard (JObj [(''codeValidationResult'', JObj [(''status'', JStr ''success'')])]) = Inr t3"
    by (simp add: ResultCard_truthy and_map_def)
  show ?thesis
    using t1 t2 t3
      C7_success_styling
        [of Success "JObj [(''codeValidationResult'', JObj [(''status'', JStr ''Success'')])]" t1]
      C7_success_styling
        [of Success "JObj [(''codeValidationResult'', JObj [(''status'', JStr ''Failure'')])]" t2]
      C7_success_styling
        [of Success "JObj [(''codeValidationResult'', JObj [(''status'', JStr ''success'')])]" t3]
    by simp
qed

text \<open>
  C9: the display components are total on missing input. ResultCard of a null or undefined
  plan returns null, and so does ErrorAlert of an empty message. In a plan object, an
  absent skillsToLearn, skillsWithCourses or codeValidationResult makes its own
  expression the empty child and raises nothing; the card fails only when one of its two
  lists fails; and with all three absent the card is rendered with the title, the two
  empty sections and no validation section.
\<close>

theorem C9_total_on_missing_input:
  "ResultCard JNull = Inr VNull \<and> ResultCard JUndefined = Inr VNull
   \<and> ErrorAlert (JStr []) = VNull \<and> ErrorAlert JUndefined = VNull \<and> ErrorAlert JNull = VNull
   \<and> (map_of kvs ''skillsToLearn'' = None \<longrightarrow>
        and_map (get_prop (JObj kvs) ''skillsToLearn'') skill_item = Inr (VExpr JUndefined))
   \<and> (map_of kvs ''skillsWithCourses'' = None \<longrightarrow>
        and_map (get_prop (JObj kvs) ''skillsWithCourses'') skill_section = Inr (VExpr JUndefined))
   \<and> (map_of kvs ''codeValidationResult'' = None \<longrightarrow>
        and_node (get_prop (JObj kvs) ''codeValidationResult'') n = VExpr JUndefined)
   \<and> ((\<exists>e. ResultCard (JObj kvs) = Inl e) \<longleftrightarrow>
        (\<exists>e. and_map (get_prop (JObj kvs) ''skillsToLearn'') skill_item = Inl e)
        \<or> (\<exists>e. and_map (get_prop (JObj kvs) ''skillsWithCourses'') skill_section = Inl e))
   \<and> (map_of kvs ''skillsToLearn'' = None \<and> map_of kvs ''skillsWithCourses'' = None
        \<and> map_of kvs ''codeValidationResult'' = None \<longrightarrow>
      ResultCard (JObj kvs) =
        Inr (el ''div'' [''container'']
          [card_header (get_prop (JObj kvs) ''title''),
           skills_section (VExpr JUndefined),
           el ''div'' [''section'']
             [el ''h4'' [''sectionTitle''] [VText (books_icon @ '' Recommended Courses'')],
              VExpr JUndefined],
           VExpr JUndefined]))"
proof -
  have fails: "(\<exists>e. ResultCard (JObj kvs) = Inl e) \<longleftrightarrow>
        (\<exists>e. and_map (get_prop (JObj kvs) ''skillsToLearn'') skill_item = Inl e)
        \<or> (\<exists>e. and_map (get_prop (JObj kvs) ''skillsWithCourses'') skill_section = Inl e)"
    by (simp add: ResultCard_truthy del: get_prop.simps split: sum.splits)
  have rest: "ResultCard JNull = Inr VNull \<and> ResultCard JUndefined = Inr VNull
      \<and> ErrorAlert (JStr []) = VNull \<and> ErrorAlert JUndefined = VNull \<and> ErrorAlert JNull = VNull"
    by (simp add: ResultCard_def ErrorAlert_def)
  have absent: "map_of kvs ''skillsToLearn'' = None \<and> map_of kvs ''skillsWithCourses'' = None
        \<and> map_of kvs ''codeValidationResult'' = None \<longrightarrow>
      ResultCard (JObj kvs) =
        Inr (el ''div'' [''container'']
          [card_header (get_prop (JObj kvs) ''title''),
           skills_section (VExpr JUndefined),
           el ''div'' [''section'']
             [el ''h4'' [''sectionTitle''] [VText (books_icon @ '' Recommended Courses'')],
              VExpr JUndefined],
           VExpr JUndefined])"
    by (simp add: ResultCard_truthy and_map_def and_node_def)
  show ?thesis
    using fails rest absent by (simp add: and_map_def and_node_def)
qed

theorem C9_total_on_missing_input_witness:
  "ResultCard (JObj [(''title'', JStr ''Your Path'')]) =
     Inr (el ''div'' [''container'']
       [card_header (JStr ''Your Path''),
        skills_section (VExpr JUndefined),
        el ''div'' [''section'']
          [el ''h4'' [''sectionTitle''] [VText (books_icon @ '' Recommended Courses'')],
           VExpr JUndefined],
        VExpr JUndefined])"
  using C9_total_on_missing_input [of "[(''title'', JStr ''Your Path'')]"]
  by simp

text \<open>
  C10: a course without a duration is rendered with "N/A" and a course without a level
  with "All Levels", in their places in the line of the course, and the link of such a
  course is rendered without an error.
\<close>

theorem C10_course_defaults:
  "(map_of kvs ''duration'' = None \<longrightarrow> course_meta (JObj kvs) ! 2 = VExpr (JStr ''N/A''))
   \<and> (map_of kvs ''level'' = None \<longrightarrow> course_meta (JObj kvs) ! 5 = VExpr (JStr ''All Levels''))
   \<and> course_link (JObj kvs) i =
       Inr (VElem ''a'' (Some i) [''courseLink'']
             [(''href'', get_prop (JObj kvs) ''url''), (''target'', JStr ''_blank''),
              (''rel'', JStr ''noopener noreferrer'')]
             [el ''div'' [''courseInfo'']
                [el ''span'' [''courseTitle''] [VExpr (get_prop (JObj kvs) ''title'')],
                 el ''span'' [''courseMeta''] (course_meta (JObj kvs))],
              el ''span'' [''arrow''] [VText arrow_icon]])"
  by (simp add: course_meta_def course_link_def js_or_def nullish_def)

theorem C10_course_defaults_witness:
  "course_meta (JObj [(''title'', JStr ''Python 101''), (''platform'', JStr ''Coursera'')]) =
     [VExpr (JStr ''Coursera''), VText ('' '' @ bullet @ '' ''), VExpr (JStr ''N/A''),
      VText ('' '' @ bullet), VExpr (JStr '' ''), VExpr (JStr ''All Levels'')]"
  using C10_course_defaults
      [of "[(''title'', JStr ''Python 101''), (''platform'', JStr ''Coursera'')]" 0]
  by (simp add: course_meta_def js_or_def)

text \<open>A plan with one course that lacks both fields, rendered whole.\<close>

lemma ResultCard_course_defaults_example:
  "ResultCard (JObj [(''skillsWithCourses'',
       JArr [JObj [(''skill'', JStr ''Python''),
                   (''courses'', JArr [JObj [(''title'', JStr ''Python 101''),
                                            (''platform'', JStr ''Coursera'')]])]])]) =
     Inr (el ''div'' [''container'']
       [card_header JUndefined, skills_section (VExpr JUndefined),
        el ''div'' [''section'']
          [el ''h4'' [''sectionTitle''] [VText (books_icon @ '' Recommended Courses'')],
           VArray [VElem ''div'' (Some 0) [''skillSection''] []
             [el ''h5'' [''skillName''] [VExpr (JStr ''Python'')],
              el ''div'' [''courseList'']
                [VArray [VElem ''a'' (Some 0) [''courseLink'']
                   [(''href'', JUndefined), (''target'', JStr ''_blank''),
                    (''rel'', JStr ''noopener noreferrer'')]
                   [el ''div'' [''courseInfo'']
                      [el ''span'' [''courseTitle''] [VExpr (JStr ''Python 101'')],
                       el ''span'' [''courseMeta'']
                         [VExpr (JStr ''Coursera''), VText ('' '' @ bullet @ '' ''),
                          VExpr (JStr ''N/A''), VText ('' '' @ bullet), VExpr (JStr '' ''),
                          VExpr (JStr ''All Levels'')]],
                    el ''span'' [''arrow''] [VText arrow_icon]]]],
              VExpr JUndefined]]],
        VExpr JUndefined])"
  by (simp add: ResultCard_truthy and_map_def and_node_def skill_section_def course_link_def
      course_meta_def js_or_def nullish_def)

section \<open>The orchestrator's response\<close>

lemma analyze_stage_tool_round:
  assumes "reason c tid q ks = Inr (ToolCallRequested course_search s)"
    and "reason_with_tool c tid q ks s
           (case invoke c tid course_search s of Inl f \<Rightarrow> [] | Inr cs \<Rightarrow> cs)
         = Inr (FinalAnswer skills)"
    and "skills \<noteq> []"
  shows "\<exists>sat. analyze_stage c tid q ks = Inr (take 3 skills, sat)"
  using assms by (simp add: analyze_stage_def accept_gap_def Let_def)

text \<open>
  C2, as stated, fails: a Reasoning collaborator that is reached and answers, but names no
  skill, gets the request an AnalysisError and no CareerPath.
\<close>

theorem C2_no_skill_no_path:
  "valid_query demo_query
   \<and> reason mock_no_skills 100 demo_query (retrieve_stage mock_no_skills 100 demo_query)
       = Inr (FinalAnswer [])
   \<and> fst (GenerateCareerPath mock_no_skills 100 demo_query) = Inl AnalysisError"
  by (simp add: valid_query_def demo_query_def trim_spec_def is_space_def mock_no_skills_def
      mock_def GenerateCareerPath_def analyze_stage_def accept_gap_def retrieve_stage_def)

text \<open>
  C2 (amended): for every valid pair to which the Reasoning collaborator gives a final
  answer that names at least one skill, at once or after its one round of course search,
  GenerateCareerPath returns a CareerPath, whatever the other collaborators do, and its
  skillsToLearn is the first three skills of the answer: never empty, of length at most 3.
\<close>

theorem C2_answered_skills_bounded:
  assumes "valid_query q"
    and "reason c tid q (retrieve_stage c tid q) = Inr (FinalAnswer skills)
         \<or> (\<exists>s. reason c tid q (retrieve_stage c tid q) = Inr (ToolCallRequested course_search s)
               \<and> reason_with_tool c tid q (retrieve_stage c tid q) s
                    (case invoke c tid course_search s of Inl f \<Rightarrow> [] | Inr cs \<Rightarrow> cs)
                  = Inr (FinalAnswer skills))"
    and "skills \<noteq> []"
  shows "\<exists>p. fst (GenerateCareerPath c tid q) = Inr p \<and> skillsToLearn p = take 3 skills
           \<and> skillsToLearn p \<noteq> [] \<and> length (skillsToLearn p) \<le> 3"
proof -
  from assms(2,3) obtain sat where
    a: "analyze_stage c tid q (retrieve_stage c tid q) = Inr (take 3 skills, sat)"
    using analyze_stage_final analyze_stage_tool_round by blast
  from GenerateCareerPath_analyzed(1) [OF assms(1) a] analyze_stage_gap [OF a]
  show ?thesis by simp
qed

theorem C2_answered_skills_bounded_witness:
  "\<exists>p. fst (GenerateCareerPath (mock [] 1) 100 demo_query) = Inr p
       \<and> skillsToLearn p = [''Python'', ''ML Fundamentals'', ''Data Structures'']
       \<and> skillsToLearn p \<noteq> [] \<and> length (skillsToLearn p) \<le> 3"
proof -
  have v: "valid_query demo_query"
    by (simp add: valid_query_def demo_query_def trim_spec_def is_space_def)
  have r: "reason (mock [] 1) 100 demo_query (retrieve_stage (mock [] 1) 100 demo_query)
      = Inr (FinalAnswer demo_gap)"
    by (simp add: mock_def)
  have n: "demo_gap \<noteq> []"
    by (simp add: demo_gap_def)
  show ?thesis
    using C2_answered_skills_bounded [OF v disjI1 [OF r] n] by (simp add: demo_gap_def)
qed

text \<open>
  A reasoning answer of more than three skills is cut to the first three, and one that
  names no skill fails the request with an AnalysisError.
\<close>

lemma GenerateCareerPath_final_answer:
  assumes "valid_query q"
    and "reason c tid q (retrieve_stage c tid q) = Inr (FinalAnswer skills)"
  shows "skills \<noteq> [] \<Longrightarrow>
           \<exists>p. fst (GenerateCareerPath c tid q) = Inr p \<and> skillsToLearn p = take 3 skills"
    and "skills = [] \<Longrightarrow> fst (GenerateCareerPath c tid q) = Inl AnalysisError"
proof -
  show "\<exists>p. fst (GenerateCareerPath c tid q) = Inr p \<and> skillsToLearn p = take 3 skills"
    if "skills \<noteq> []"
    using GenerateCareerPath_analyzed(1) [OF assms(1) analyze_stage_final [OF assms(2) that]]
    by simp
  show "fst (GenerateCareerPath c tid q) = Inl AnalysisError" if "skills = []"
    using assms that by (simp add: GenerateCareerPath_def analyze_stage_def accept_gap_def)
qed

text \<open>An unreachable Reasoning collaborator fails the request, and no later stage runs.\<close>

lemma GenerateCareerPath_unreachable:
  assumes "valid_query q" and "reason c tid q (retrieve_stage c tid q) = Inl f"
  shows "fst (GenerateCareerPath c tid q) = Inl AnalysisError
     \<and> map stageName (snd (GenerateCareerPath c tid q)) = [''Retrieve'', ''Analyze'']"
proof -
  have "analyze_stage c tid q (retrieve_stage c tid q) = Inl AnalysisError"
    using assms(2) by (simp add: analyze_stage_def)
  from GenerateCareerPath_analysis_failed [OF assms(1) this] show ?thesis .
qed



text \<open>
  Whatever the number of calls that fail, every slot holds what its own call returned, or
  the empty list when that call failed.
\<close>

lemma fetch_courses_slot:
  assumes "j < length (dedup gap)"
  shows "fetch_courses c tid [] gap ! j =
     \<lparr>skill = dedup gap ! j,
      courses = (case invoke c tid course_search (dedup gap ! j) of
                   Inl f \<Rightarrow> [] | Inr cs \<Rightarrow> cs)\<rparr>"
  using assms by (simp add: fetch_courses_def fetch_one_def)

text \<open>
  The same in the response of the orchestrator, for a gap answered at once: every skill of
  the deduplicated gap has its slot, and the slot holds what the skill's own call returned.
\<close>

lemma GenerateCareerPath_courses:
  assumes "valid_query q"
    and "reason c tid q (retrieve_stage c tid q) = Inr (FinalAnswer skills)"
    and "skills \<noteq> []"
  shows "\<exists>p. fst (GenerateCareerPath c tid q) = Inr p
     \<and> skillsWithCourses p =
         map (\<lambda>s. \<lparr>skill = s,
                    courses = (case invoke c tid course_search s of
                                 Inl f \<Rightarrow> [] | Inr cs \<Rightarrow> cs)\<rparr>)
             (dedup (take 3 skills))"
  using GenerateCareerPath_analyzed(1) [OF assms(1) analyze_stage_final [OF assms(2,3)]]
  by (simp add: fetch_courses_def fetch_one_def)

text \<open>
  C8: two runs of GenerateCareerPath on the same query, under different trace ids and
  against collaborators that answer alike in the two runs but for the non-deterministic
  fields of the sandbox verdict, agree on skillsToLearn and on the validation status (and
  on the kind of the error, when the request fails).
\<close>

theorem C8_stable_fields_deterministic:
  assumes "retrieve c1 tid1 = retrieve c2 tid2" and "reason c1 tid1 = reason c2 tid2"
    and "reason_with_tool c1 tid1 = reason_with_tool c2 tid2"
    and "invoke c1 tid1 = invoke c2 tid2"
    and "generate_snippet c1 tid1 = generate_snippet c2 tid2"
    and "\<And>cd lang. same_verdict (validate c1 tid1 cd lang) (validate c2 tid2 cd lang)"
  shows "stable_fields (fst (GenerateCareerPath c1 tid1 q))
       = stable_fields (fst (GenerateCareerPath c2 tid2 q))"
proof -
  have a: "analyze_stage c1 tid1 q ks = analyze_stage c2 tid2 q ks" for ks
    using assms(2,3,4)
    by (simp add: analyze_stage_def cong: sum.case_cong reasoning_reply.case_cong if_cong)
  have r: "retrieve_stage c1 tid1 q = retrieve_stage c2 tid2 q"
    using assms(1) by (simp add: retrieve_stage_def)
  have g: "generate_stage c1 tid1 s = generate_stage c2 tid2 s" for s
    using assms(5) by (simp add: generate_stage_def)
  have v: "status (validate_stage c1 tid1 sn) = status (validate_stage c2 tid2 sn)" for sn
    using assms(6) [of "code sn" "language sn"]
    by (auto simp: validate_stage_def same_verdict_def split: sum.splits)
  show ?thesis
    by (simp add: GenerateCareerPath_def Let_def stable_fields_def a r g v
        split: sum.splits list.splits prod.splits)
qed

theorem C8_stable_fields_deterministic_witness:
  "stable_fields (fst (GenerateCareerPath (mock [] 1) 100 demo_query))
     = stable_fields (fst (GenerateCareerPath (mock [] 7) 200 demo_query))
   \<and> stable_fields (fst (GenerateCareerPath (mock [] 1) 100 demo_query))
     = Inr ([''Python'', ''ML Fundamentals'', ''Data Structures''], Success)
   \<and> fst (GenerateCareerPath (mock [] 1) 100 demo_query)
     \<noteq> fst (GenerateCareerPath (mock [] 7) 200 demo_query)"
proof -
  have v: "valid_query demo_query"
    by (simp add: valid_query_def demo_query_def trim_spec_def is_space_def)
  have a: "analyze_stage (mock [] t) tid demo_query (retrieve_stage (mock [] t) tid demo_query)
      = Inr (demo_gap, [])" for t tid
    by (simp add: analyze_stage_def accept_gap_def mock_def demo_gap_def)
  have "stable_fields (fst (GenerateCareerPath (mock [] 1) 100 demo_query))
     = stable_fields (fst (GenerateCareerPath (mock [] 7) 200 demo_query))"
    by (rule C8_stable_fields_deterministic) (simp_all add: mock_def same_verdict_def)
  moreover have "stable_fields (fst (GenerateCareerPath (mock [] 1) 100 demo_query))
     = Inr ([''Python'', ''ML Fundamentals'', ''Data Structures''], Success)"
    unfolding GenerateCareerPath_analyzed(1) [OF v a]
    by (simp add: stable_fields_def validate_stage_def mock_def demo_gap_def)
  moreover have "fst (GenerateCareerPath (mock [] 1) 100 demo_query)
     \<noteq> fst (GenerateCareerPath (mock [] 7) 200 demo_query)"
    unfolding GenerateCareerPath_analyzed(1) [OF v a]
    by (simp add: validate_stage_def mock_def)
  ultimately show ?thesis by simp
qed

text \<open>
  The scenario of the spec, section 8: the three skills in their order, two courses for
  each, and the status Success.
\<close>

lemma end_to_end_scenario:
  "fst (GenerateCareerPath (mock [] 1) 100 demo_query) =
     Inr \<lparr>title = ''Your Path from Frontend Developer to Machine Learning Engineer'',
          skillsToLearn = [''Python'', ''ML Fundamentals'', ''Data Structures''],
          skillsWithCourses =
            map (\<lambda>s. \<lparr>skill = s,
                       courses = [demo_course s ''Basics'', demo_course s ''Advanced'']\<rparr>)
              [''Python'', ''ML Fundamentals'', ''Data Structures''],
          codeValidationResult =
            \<lparr>status = Success, validation_output = ''42'', validation_error = None,
             executionTimeSeconds = 1\<rparr>\<rparr>"
proof -
  have v: "valid_query demo_query"
    by (simp add: valid_query_def demo_query_def trim_spec_def is_space_def)
  have a: "analyze_stage (mock [] 1) 100 demo_query (retrieve_stage (mock [] 1) 100 demo_query)
      = Inr (demo_gap, [])"
    by (simp add: analyze_stage_def accept_gap_def mock_def demo_gap_def)
  show ?thesis
    unfolding GenerateCareerPath_analyzed(1) [OF v a]
    by (simp add: fetch_courses_def fetch_one_def dedup_def validate_stage_def mock_def
        demo_gap_def demo_query_def)
qed

end
